theory Spec2Isabelle
  imports Main "HOL-Library.Sublist"
begin

section \<open>Python values\<close>

text \<open>
  A Python \<open>str\<close> is a \<^typ>\<open>string\<close>: one \<^typ>\<open>char\<close> per code point, so
  \<^const>\<open>length\<close> is Python's \<open>len\<close>. Every string constant of the sources lies in the
  range below 256; the accented letters are written by their code point.
\<close>

abbreviation a_acute :: char where "a_acute \<equiv> CHR 0xE1"
abbreviation e_acute :: char where "e_acute \<equiv> CHR 0xE9"
abbreviation i_acute :: char where "i_acute \<equiv> CHR 0xED"
abbreviation n_tilde :: char where "n_tilde \<equiv> CHR 0xF1"
abbreviation o_acute :: char where "o_acute \<equiv> CHR 0xF3"
abbreviation u_acute :: char where "u_acute \<equiv> CHR 0xFA"
abbreviation apostrophe :: char where "apostrophe \<equiv> CHR 0x27"

text \<open>The exceptions the sources raise, catch or let through. \<open>str(exc)\<close> of a
  \<open>RuntimeError\<close> or an \<open>OpenAIError\<close> is the message it carries;
  \<open>HTTPException\<close> carries \<open>status_code\<close> and \<open>detail\<close>.\<close>

datatype exn =
    RuntimeError string
  | OpenAIError string
  | AttributeError
  | IndexError
  | TypeError
  | EOFError
  | HTTPException nat string

text \<open>\<open>%d\<close> and \<open>{len(...)}\<close>: the decimal digits of a natural number.\<close>

fun str_nat :: "nat \<Rightarrow> string" where
  "str_nat n =
     (if n < 10 then [''0123456789'' ! n]
      else str_nat (n div 10) @ [''0123456789'' ! (n mod 10)])"

declare str_nat.simps [simp del]

text \<open>A \<open>Dict[str, str]\<close> keeps its insertion order: an association list.\<close>

type_synonym pydict = "(string \<times> string) list"

section \<open>Logging\<close>

text \<open>A logger creates a record for a call at or above its effective level; a record
  keeps its level and its formatted message. \<open>logger.exception\<close> logs at level
  \<open>ERROR\<close>.\<close>

datatype level = INFO | WARNING | ERROR

fun level_no :: "level \<Rightarrow> nat" where
  "level_no INFO = 20"
| "level_no WARNING = 30"
| "level_no ERROR = 40"

definition enabled_for :: "level \<Rightarrow> level \<Rightarrow> bool" where
  "enabled_for effective lvl = (level_no effective \<le> level_no lvl)"

record 'a logged =
  log :: "(level \<times> string) list"
  inner :: 'a

definition emit :: "level \<Rightarrow> string \<Rightarrow> ('a, 'b) logged_scheme \<Rightarrow> ('a, 'b) logged_scheme" where
  "emit lvl msg w = w\<lparr>log := log w @ [(lvl, msg)]\<rparr>"

text \<open>A call on a logger whose effective level is \<open>effective\<close>: below that level it
  creates no record.\<close>

definition emit_at :: "level \<Rightarrow> level \<Rightarrow> string \<Rightarrow> ('a, 'b) logged_scheme \<Rightarrow> ('a, 'b) logged_scheme" where
  "emit_at effective lvl msg w = (if enabled_for effective lvl then emit lvl msg w else w)"

text \<open>The levels in force. \<open>src/llm_client.py\<close> sets its logger to \<open>INFO\<close>, and the
  package configures the root logger when it starts (\<open>INFO\<close> unless the settings say
  otherwise): there \<open>logger.info\<close> creates a record. \<open>src/app.py\<close> gets its logger and
  sets neither a level nor a handler, so the root logger's default \<open>WARNING\<close> is in
  force: its \<open>logger.info\<close> calls create no record, its \<open>logger.warning\<close> and
  \<open>logger.error\<close> calls do.\<close>

definition app_logger_level :: level where
  "app_logger_level = WARNING"

section \<open>Schemas (src/app.py, src/app/models/schemas.py)\<close>

datatype Role = System | User | Assistant

fun role_value :: "Role \<Rightarrow> string" where
  "role_value System = ''system''"
| "role_value User = ''user''"
| "role_value Assistant = ''assistant''"

record Message =
  role :: Role
  content :: string

text \<open>\<open>msg.model_dump()\<close>: the plain dict of a \<open>Message\<close>, fields in declaration order.\<close>

definition model_dump :: "Message \<Rightarrow> pydict" where
  "model_dump msg = [(''role'', role_value (role msg)), (''content'', content msg)]"

text \<open>The single-file \<open>ChatRequest\<close> and \<open>ChatResponse\<close>; the package's schemas add
  \<open>business_id\<close> and \<open>sources\<close>.\<close>

record ChatRequest =
  messages :: "Message list"

record ChatRequest_pkg = ChatRequest +
  business_id :: "string option"

record ChatResponse =
  reply :: string

record ChatResponse_pkg = ChatResponse +
  sources :: "string list option"

section \<open>The model gateway as the handlers see it\<close>

text \<open>A handler calls \<open>call_model(messages)\<close> (or \<open>call_llm\<close>): a call that returns a
  string or raises, and may change the state behind it.\<close>

type_synonym 'g gateway = "pydict list \<Rightarrow> 'g \<Rightarrow> (exn + string) \<times> 'g"

text \<open>Instrumentation for the proofs: \<open>recording f\<close> behaves as \<open>f\<close> and appends
  every argument it is called with to a trace that \<open>f\<close> cannot reach.\<close>

definition recording :: "('a \<Rightarrow> 's \<Rightarrow> 'r \<times> 's) \<Rightarrow> 'a \<Rightarrow> 's \<times> 'a list \<Rightarrow> 'r \<times> 's \<times> 'a list" where
  "recording f a st = (let (r, s') = f a (fst st) in (r, s', snd st @ [a]))"

section \<open>POST /chat, single file (src/app.py)\<close>

definition chat :: "'g gateway \<Rightarrow> ChatRequest \<Rightarrow> 'g logged \<Rightarrow> (exn + ChatResponse) \<times> 'g logged" where
  "chat call_model request w =
     (if messages request = [] then
        (Inl (HTTPException 400
               (''The '' @ [apostrophe] @ ''messages'' @ [apostrophe] @ '' list cannot be empty.'')),
         emit_at app_logger_level WARNING
           (''Se recibi'' @ [o_acute] @ '' petici'' @ [o_acute]
              @ ''n /chat con lista de mensajes vac'' @ [i_acute] @ ''a'') w)
      else
        let w1 = emit_at app_logger_level INFO
                   (''Se recibi'' @ [o_acute] @ '' petici'' @ [o_acute] @ ''n /chat con ''
                      @ str_nat (length (messages request)) @ '' mensajes'') w;
            messages_dict = map model_dump (messages request)
        in case call_model messages_dict (inner w1) of
             (Inr reply', g) \<Rightarrow>
               (Inr \<lparr>reply = reply'\<rparr>,
                emit_at app_logger_level INFO
                  (''Respuesta del LLM generada con '' @ str_nat (length reply') @ '' caracteres'')
                  (w1\<lparr>inner := g\<rparr>))
           | (Inl e, g) \<Rightarrow>
               (case e of
                  RuntimeError m \<Rightarrow>
                    (Inl (HTTPException 500 m),
                     emit_at app_logger_level ERROR
                       (''Llamada al LLM fall'' @ [o_acute] @ '': '' @ m) (w1\<lparr>inner := g\<rparr>))
                | _ \<Rightarrow> (Inl e, w1\<lparr>inner := g\<rparr>)))"

section \<open>POST /chat, package (src/app/api/routes/chat.py)\<close>

text \<open>\<open>%s\<close> of an optional string: \<open>None\<close> prints as the word.\<close>

fun str_opt :: "string option \<Rightarrow> string" where
  "str_opt None = ''None''"
| "str_opt (Some s) = s"

definition routes_chat :: "'g gateway \<Rightarrow> ChatRequest_pkg \<Rightarrow> 'g logged \<Rightarrow> (exn + ChatResponse_pkg) \<times> 'g logged" where
  "routes_chat call_llm request w =
     (if messages request = [] then
        (Inl (HTTPException 400
               (''La lista '' @ [apostrophe] @ ''messages'' @ [apostrophe]
                  @ '' no puede estar vac'' @ [i_acute] @ ''a'')),
         emit WARNING (''Request con messages vac'' @ [i_acute] @ ''o'') w)
      else
        let w1 = emit INFO (''POST /chat - '' @ str_nat (length (messages request))
                              @ '' mensajes, business_id='' @ str_opt (business_id request)) w;
            messages_dict = map model_dump (messages request)
        in case call_llm messages_dict (inner w1) of
             (Inr reply', g) \<Rightarrow>
               (Inr \<lparr>reply = reply', sources = None\<rparr>,
                emit INFO (''Respuesta generada: '' @ str_nat (length reply') @ '' caracteres'')
                  (w1\<lparr>inner := g\<rparr>))
           | (Inl e, g) \<Rightarrow>
               (case e of
                  RuntimeError m \<Rightarrow>
                    (Inl (HTTPException 500 (''Error al procesar el mensaje: '' @ m)),
                     emit ERROR (''Error en LLM: '' @ m) (w1\<lparr>inner := g\<rparr>))
                | _ \<Rightarrow> (Inl e, w1\<lparr>inner := g\<rparr>)))"

section \<open>POST /cold-email (src/app.py)\<close>

datatype Tone = Casual | Professional | Friendly

fun tone_value :: "Tone \<Rightarrow> string" where
  "tone_value Casual = ''casual''"
| "tone_value Professional = ''professional''"
| "tone_value Friendly = ''friendly''"

datatype Language = En | Es

fun language_value :: "Language \<Rightarrow> string" where
  "language_value En = ''en''"
| "language_value Es = ''es''"

record ColdEmailRequest =
  freelancer_profile :: string
  client_business :: string
  client_pain_point :: string
  offer :: string
  goal :: string
  tone :: Tone
  language :: Language

record ColdEmailResponse =
  email :: string

definition system_prompt :: string where
  "system_prompt =
     ''Eres un copywriter experto que escribe cold emails efectivos ''
     @ ''para freelancers que quieren conseguir nuevos clientes. ''
     @ ''Escribe emails claros, concisos que suenen humanos y respetuosos. ''
     @ ''Siempre ad'' @ [a_acute] @ ''ptate al idioma y tono solicitados. ''
     @ ''No inventes datos sobre el freelancer o el cliente.''"

definition user_prompt :: "ColdEmailRequest \<Rightarrow> string" where
  "user_prompt request =
     ''Perfil del freelancer: '' @ freelancer_profile request @ ''\<newline>''
     @ ''Negocio del cliente: '' @ client_business request @ ''\<newline>''
     @ ''Punto de dolor del cliente: '' @ client_pain_point request @ ''\<newline>''
     @ ''Oferta: '' @ offer request @ ''\<newline>''
     @ ''Objetivo del email: '' @ goal request @ ''\<newline>''
     @ ''Tono: '' @ tone_value (tone request) @ ''\<newline>''
     @ ''Idioma: '' @ language_value (language request) @ ''\<newline>\<newline>''
     @ ''Escribe un cold email que el freelancer pueda enviar a este cliente. ''
     @ ''Si el idioma es '' @ [apostrophe] @ ''en'' @ [apostrophe] @ '', escribe en Ingl''
     @ [e_acute] @ ''s. Si es '' @ [apostrophe] @ ''es'' @ [apostrophe] @ '', escribe en Espa''
     @ [n_tilde] @ ''ol. ''
     @ ''El email debe estar listo para copiar y pegar.''"

definition generate_cold_email :: "'g gateway \<Rightarrow> ColdEmailRequest \<Rightarrow> 'g logged \<Rightarrow> (exn + ColdEmailResponse) \<times> 'g logged" where
  "generate_cold_email call_model request w =
     (let w1 = emit_at app_logger_level INFO
                 (''Se recibi'' @ [o_acute] @ '' petici'' @ [o_acute]
                    @ ''n /cold-email con tone='' @ tone_value (tone request)
                    @ '', language='' @ language_value (language request)) w;
          messages' = [[(''role'', ''system''), (''content'', system_prompt)],
                       [(''role'', ''user''), (''content'', user_prompt request)]]
      in case call_model messages' (inner w1) of
           (Inr reply', g) \<Rightarrow>
             (Inr \<lparr>email = reply'\<rparr>,
              emit_at app_logger_level INFO
                (''Cold email generado con '' @ str_nat (length reply') @ '' caracteres'')
                (w1\<lparr>inner := g\<rparr>))
         | (Inl e, g) \<Rightarrow>
             (case e of
                RuntimeError m \<Rightarrow>
                  (Inl (HTTPException 500 m),
                   emit_at app_logger_level ERROR
                     (''Generaci'' @ [o_acute] @ ''n de cold email fall'' @ [o_acute] @ '': '' @ m)
                     (w1\<lparr>inner := g\<rparr>))
              | _ \<Rightarrow> (Inl e, w1\<lparr>inner := g\<rparr>)))"

section \<open>The command-line loop (src/cli.py)\<close>

text \<open>\<open>str.strip()\<close> and \<open>str.lower()\<close> on code points below 256: the white space is
  \<open>0x09\<close> to \<open>0x0D\<close>, \<open>0x1C\<close> to \<open>0x20\<close>, \<open>0x85\<close> and \<open>0xA0\<close>; the upper-case
  letters are \<open>A\<close> to \<open>Z\<close> and \<open>0xC0\<close> to \<open>0xDE\<close> without \<open>0xD7\<close>, each 32 below
  its lower-case letter.\<close>

definition isspace :: "char \<Rightarrow> bool" where
  "isspace c =
     (let n = (of_char c :: nat)
      in (9 \<le> n \<and> n \<le> 13) \<or> (28 \<le> n \<and> n \<le> 32) \<or> n = 133 \<or> n = 160)"

definition strip :: "string \<Rightarrow> string" where
  "strip s = rev (dropWhile isspace (rev (dropWhile isspace s)))"

definition lower_char :: "char \<Rightarrow> char" where
  "lower_char c =
     (let n = (of_char c :: nat)
      in if (65 \<le> n \<and> n \<le> 90) \<or> (192 \<le> n \<and> n \<le> 222 \<and> n \<noteq> 215)
         then char_of (n + 32) else c)"

definition lower :: "string \<Rightarrow> string" where
  "lower s = map lower_char s"

text \<open>The terminal: what was written to standard output, one entry per write, and the
  state behind the gateway. \<open>print(x)\<close> writes \<open>x\<close> and a newline.\<close>

record 'g console =
  stdout :: "string list"
  gw :: 'g

definition put :: "string \<Rightarrow> 'g console \<Rightarrow> 'g console" where
  "put x t = t\<lparr>stdout := stdout t @ [x]\<rparr>"

definition py_print :: "string \<Rightarrow> 'g console \<Rightarrow> 'g console" where
  "py_print x t = put (x @ ''\<newline>'') t"

definition system_message :: pydict where
  "system_message =
     [(''role'', ''system''),
      (''content'',
       ''Eres un asistente '' @ [u_acute] @ ''til. Responde en espa'' @ [n_tilde]
       @ ''ol de forma clara y concisa, ''
       @ ''salvo que el usuario te pida expl'' @ [i_acute] @ ''citamente usar otro idioma.'')]"

text \<open>The \<open>while True\<close> loop over the lines that standard input still holds.
  \<open>input("You: ")\<close> writes the prompt and returns the next line, or raises
  \<open>EOFError\<close> when there is none. The result is how the loop was left (\<open>None\<close>: by
  \<open>break\<close>; an exception: by that exception), the history \<open>messages\<close> at that point and
  the terminal. \<open>messages.pop()\<close> removes the last element; the list holds the turn
  just appended, so it is not empty there.\<close>

fun main_loop :: "'g gateway \<Rightarrow> string list \<Rightarrow> pydict list \<Rightarrow> 'g console \<Rightarrow> exn option \<times> pydict list \<times> 'g console" where
  "main_loop call_model [] messages' t = (Some EOFError, messages', put ''You: '' t)"
| "main_loop call_model (line # stdin) messages' t =
     (let t1 = put ''You: '' t;
          user_input = strip line
      in if lower user_input \<in> {''exit'', ''quit''} then (None, messages', py_print ''Goodbye!'' t1)
         else if user_input = [] then main_loop call_model stdin messages' t1
         else
           let messages1 = messages' @ [[(''role'', ''user''), (''content'', user_input)]]
           in case call_model messages1 (gw t1) of
                (Inr assistant_reply, g) \<Rightarrow>
                  main_loop call_model stdin
                    (messages1 @ [[(''role'', ''assistant''), (''content'', assistant_reply)]])
                    (py_print (''Assistant: '' @ assistant_reply @ ''\<newline>'') (t1\<lparr>gw := g\<rparr>))
              | (Inl e, g) \<Rightarrow>
                  (case e of
                     RuntimeError exc \<Rightarrow>
                       main_loop call_model stdin (butlast messages1)
                         (py_print (''[error] '' @ exc) (t1\<lparr>gw := g\<rparr>))
                   | _ \<Rightarrow> (Some e, messages1, t1\<lparr>gw := g\<rparr>)))"

definition main :: "'g gateway \<Rightarrow> string list \<Rightarrow> 'g console \<Rightarrow> exn option \<times> pydict list \<times> 'g console" where
  "main call_model stdin t =
     main_loop call_model stdin [system_message]
       (py_print (''CLI LLM Chatbot. Type '' @ [apostrophe] @ ''exit'' @ [apostrophe]
                    @ '' to quit.\<newline>'') t)"

section \<open>The provider (the openai package, outside the repository)\<close>

text \<open>What \<open>client.chat.completions.create\<close> gives back, as far as the gateways read it.
  An attribute the object does not have is \<open>NoAttr\<close> (reading it raises
  \<open>AttributeError\<close>), an attribute that is Python's \<open>None\<close> is \<open>IsNone\<close>. The
  package declares \<open>content\<close> as an optional string.\<close>

datatype 'a attr = NoAttr | IsNone | Has 'a

datatype completion_message = CompletionMessage "string attr"

datatype choice = Choice "completion_message attr"

datatype completion = Completion "choice list attr"

record provider_request =
  api_key :: string
  model :: string
  request_messages :: "pydict list"

text \<open>The call returns a completion or raises; it may change the world behind it.\<close>

type_synonym 'p provider = "provider_request \<Rightarrow> 'p \<Rightarrow> (exn + completion) \<times> 'p"

text \<open>\<open>response.choices[0].message.content\<close>, by Python's rules: a missing attribute or
  an attribute of \<open>None\<close> raises \<open>AttributeError\<close>, \<open>None[0]\<close> raises
  \<open>TypeError\<close>, \<open>[][0]\<close> raises \<open>IndexError\<close>. The value read is \<open>None\<close> or a
  string.\<close>

fun first_choice_content :: "completion \<Rightarrow> exn + string option" where
  "first_choice_content (Completion NoAttr) = Inl AttributeError"
| "first_choice_content (Completion IsNone) = Inl TypeError"
| "first_choice_content (Completion (Has [])) = Inl IndexError"
| "first_choice_content (Completion (Has (Choice NoAttr # _))) = Inl AttributeError"
| "first_choice_content (Completion (Has (Choice IsNone # _))) = Inl AttributeError"
| "first_choice_content (Completion (Has (Choice (Has (CompletionMessage NoAttr)) # _))) = Inl AttributeError"
| "first_choice_content (Completion (Has (Choice (Has (CompletionMessage IsNone)) # _))) = Inr None"
| "first_choice_content (Completion (Has (Choice (Has (CompletionMessage (Has s))) # _))) = Inr (Some s)"

section \<open>The gateway of the single file (src/llm_client.py)\<close>

text \<open>\<open>client_api_key\<close> is \<open>_client.api_key\<close> and \<open>MODEL_NAME\<close> the module constant,
  both fixed when the module is imported; \<open>create\<close> is
  \<open>_client.chat.completions.create\<close>. \<open>not _client.api_key\<close> holds for \<open>None\<close> and
  for the empty string. \<open>len(None)\<close> raises \<open>TypeError\<close>.\<close>

definition call_model :: "string option \<Rightarrow> string \<Rightarrow> 'p provider \<Rightarrow> pydict list \<Rightarrow> 'p logged \<Rightarrow> (exn + string) \<times> 'p logged" where
  "call_model client_api_key MODEL_NAME create messages' w =
     (case client_api_key of
        None \<Rightarrow> (Inl (RuntimeError ''OpenAI API key is not configured.''), w)
      | Some key \<Rightarrow>
          (if key = [] then (Inl (RuntimeError ''OpenAI API key is not configured.''), w)
           else
            let w1 = emit INFO (''Llamando al modelo '' @ MODEL_NAME @ '' con ''
                                  @ str_nat (length messages') @ '' mensajes en el historial'') w
            in case create \<lparr>api_key = key, model = MODEL_NAME, request_messages = messages'\<rparr>
                      (inner w1) of
                 (Inl e, p) \<Rightarrow>
                   (case e of
                      OpenAIError exc \<Rightarrow>
                        (Inl (RuntimeError (''LLM request failed: '' @ exc)),
                         emit ERROR (''Error en la llamada a la API de OpenAI: '' @ exc)
                           (w1\<lparr>inner := p\<rparr>))
                    | _ \<Rightarrow> (Inl e, w1\<lparr>inner := p\<rparr>))
               | (Inr response, p) \<Rightarrow>
                   (case first_choice_content response of
                      Inl e \<Rightarrow>
                        (if e = AttributeError \<or> e = IndexError then
                           (Inl (RuntimeError ''Unexpected response format from LLM.''),
                            emit ERROR ''Formato de respuesta inesperado del LLM'' (w1\<lparr>inner := p\<rparr>))
                         else (Inl e, w1\<lparr>inner := p\<rparr>))
                    | Inr None \<Rightarrow> (Inl TypeError, w1\<lparr>inner := p\<rparr>)
                    | Inr (Some reply_text) \<Rightarrow>
                        (Inr reply_text,
                         emit INFO (''Respuesta recibida con '' @ str_nat (length reply_text)
                                      @ '' caracteres'') (w1\<lparr>inner := p\<rparr>)))))"

section \<open>The gateway of the package (src/app/config.py, src/app/services/llm.py)\<close>

record Settings =
  openai_api_key :: string
  openai_model_name :: string
  log_level :: string
  cors_origins :: "string list"
  app_name :: string
  app_version :: string

text \<open>The module keeps the client it built, \<open>None\<close> before the first call. A client
  is known by the key it was built with.\<close>

record 'p llm_service = "'p logged" +
  client :: "string option"

definition get_openai_client :: "Settings \<Rightarrow> 'p llm_service \<Rightarrow> string \<times> 'p llm_service" where
  "get_openai_client settings w =
     (case client w of
        None \<Rightarrow> (openai_api_key settings, w\<lparr>client := Some (openai_api_key settings)\<rparr>)
      | Some c \<Rightarrow> (c, w))"

text \<open>The two \<open>except\<close> clauses of \<open>call_llm\<close>, in their order; any other exception
  leaves the function as it is.\<close>

definition call_llm_except :: "exn \<Rightarrow> 'p llm_service \<Rightarrow> (exn + string) \<times> 'p llm_service" where
  "call_llm_except e w =
     (case e of
        OpenAIError m \<Rightarrow>
          (Inl (RuntimeError (''LLM request failed: '' @ m)), emit ERROR (''Error de OpenAI: '' @ m) w)
      | AttributeError \<Rightarrow>
          (Inl (RuntimeError ''Unexpected response format from LLM''),
           emit ERROR ''Formato de respuesta inesperado'' w)
      | IndexError \<Rightarrow>
          (Inl (RuntimeError ''Unexpected response format from LLM''),
           emit ERROR ''Formato de respuesta inesperado'' w)
      | _ \<Rightarrow> (Inl e, w))"

definition call_llm :: "Settings \<Rightarrow> 'p provider \<Rightarrow> pydict list \<Rightarrow> 'p llm_service \<Rightarrow> (exn + string) \<times> 'p llm_service" where
  "call_llm settings create messages' w =
     (let (client', w0) = get_openai_client settings w;
          w1 = emit INFO (''Llamando a '' @ openai_model_name settings @ '' con ''
                            @ str_nat (length messages') @ '' mensajes'') w0
      in case create \<lparr>api_key = client', model = openai_model_name settings,
                       request_messages = messages'\<rparr> (inner w1) of
           (Inl e, p) \<Rightarrow> call_llm_except e (w1\<lparr>inner := p\<rparr>)
         | (Inr response, p) \<Rightarrow>
             (case first_choice_content response of
                Inl e \<Rightarrow> call_llm_except e (w1\<lparr>inner := p\<rparr>)
              | Inr None \<Rightarrow> call_llm_except TypeError (w1\<lparr>inner := p\<rparr>)
              | Inr (Some reply') \<Rightarrow>
                  (Inr reply',
                   emit INFO (''Respuesta recibida: '' @ str_nat (length reply') @ '' caracteres'')
                     (w1\<lparr>inner := p\<rparr>))))"

section \<open>Observing calls; inputs for concrete runs\<close>

text \<open>With \<open>recording gate\<close> as the gateway, the state behind a handler is a pair: the
  gateway's own state and the arguments of every call made so far. The same wrapper
  around a provider lists the requests sent out.\<close>

definition gateway_calls :: "('g \<times> pydict list list) logged \<Rightarrow> pydict list list" where
  "gateway_calls w = snd (inner w)"

definition provider_requests :: "('p \<times> provider_request list) logged \<Rightarrow> provider_request list" where
  "provider_requests w = snd (inner w)"

definition stub_gateway :: "string \<Rightarrow> unit gateway" where
  "stub_gateway answer msgs g = (Inr answer, g)"


text \<open>A gateway that fails on its first call and answers afterwards; its state counts
  the calls.\<close>

definition flaky_gateway :: "nat gateway" where
  "flaky_gateway msgs n =
     (if n = 0 then Inl (RuntimeError ''LLM request failed: timeout'') else Inr ''hola'', Suc n)"

text \<open>A provider that rejects every request, and one whose completion carries a first
  choice with \<open>content\<close> equal to \<open>None\<close>.\<close>

definition quota_provider :: "unit provider" where
  "quota_provider rq p = (Inl (OpenAIError ''quota exceeded''), p)"

definition null_content_provider :: "unit provider" where
  "null_content_provider rq p =
     (Inr (Completion (Has [Choice (Has (CompletionMessage IsNone))])), p)"

definition test_settings :: Settings where
  "test_settings =
     \<lparr>openai_api_key = ''sk-test'', openai_model_name = ''gpt-4o-mini'', log_level = ''INFO'',
      cors_origins = [''*''], app_name = ''Chatbot Soporte API'', app_version = ''0.1.0''\<rparr>"

definition hello_request :: ChatRequest where
  "hello_request = \<lparr>messages = [\<lparr>role = User, content = ''hello''\<rparr>]\<rparr>"

definition hello_request_pkg :: ChatRequest_pkg where
  "hello_request_pkg =
     \<lparr>messages = [\<lparr>role = User, content = ''hello''\<rparr>], business_id = None\<rparr>"

definition sample_cold_email :: ColdEmailRequest where
  "sample_cold_email =
     \<lparr>freelancer_profile = ''Web developer'', client_business = ''Bakery'',
      client_pain_point = ''No online orders'', offer = ''An online shop'',
      goal = ''Book a call'', tone = Casual, language = Es\<rparr>"

text \<open>The two sentences of the user prompt that name an output language, as they stand
  in \<open>generate_cold_email\<close>.\<close>

definition english_directive :: string where
  "english_directive =
     ''Si el idioma es '' @ [apostrophe] @ ''en'' @ [apostrophe] @ '', escribe en Ingl''
     @ [e_acute] @ ''s.''"

definition spanish_directive :: string where
  "spanish_directive =
     ''Si es '' @ [apostrophe] @ ''es'' @ [apostrophe] @ '', escribe en Espa'' @ [n_tilde] @ ''ol.''"

text \<open>The history of the command-line loop starts with the system message.\<close>

definition system_first :: "pydict list \<Rightarrow> bool" where
  "system_first ms = (ms \<noteq> [] \<and> hd ms = system_message)"

section \<open>POST /chat\<close>

text \<open>
  C1. For every non-empty conversation, both chat handlers call the gateway once, with the
  conversation flattened message by message by \<open>model_dump\<close>, in order and unchanged; when
  the gateway returns a text, the response carries that text as \<open>reply\<close> (the single file
  has no \<open>sources\<close> field, the package sets it to \<open>None\<close>).
\<close>

theorem chat_forwards_conversation:
  fixes gate :: "'g gateway" and gate' :: "'h gateway"
  assumes "messages request \<noteq> []" and "messages request' \<noteq> []"
  shows "gateway_calls (snd (chat (recording gate) request w))
           = gateway_calls w @ [map model_dump (messages request)]
       \<and> (gate (map model_dump (messages request)) (fst (inner w)) = (Inr answer, g)
            \<longrightarrow> fst (chat (recording gate) request w) = Inr \<lparr>reply = answer\<rparr>)
       \<and> gateway_calls (snd (routes_chat (recording gate') request' w'))
           = gateway_calls w' @ [map model_dump (messages request')]
       \<and> (gate' (map model_dump (messages request')) (fst (inner w')) = (Inr answer', g')
            \<longrightarrow> fst (routes_chat (recording gate') request' w')
                = Inr \<lparr>reply = answer', sources = None\<rparr>)"
  using assms
  by (auto simp: chat_def routes_chat_def recording_def gateway_calls_def emit_def emit_at_def
                 Let_def
           split: prod.splits sum.splits exn.splits)

theorem chat_forwards_conversation_witness:
  "messages hello_request \<noteq> [] \<and> messages hello_request_pkg \<noteq> []
   \<and> fst (chat (recording (stub_gateway ''hi there'')) hello_request
            \<lparr>log = [], inner = ((), [])\<rparr>)
       = Inr \<lparr>reply = ''hi there''\<rparr>
   \<and> gateway_calls (snd (chat (recording (stub_gateway ''hi there'')) hello_request
                            \<lparr>log = [], inner = ((), [])\<rparr>))
       = [[[(''role'', ''user''), (''content'', ''hello'')]]]
   \<and> fst (routes_chat (recording (stub_gateway ''hi there'')) hello_request_pkg
            \<lparr>log = [], inner = ((), [])\<rparr>)
       = Inr \<lparr>reply = ''hi there'', sources = None\<rparr>
   \<and> gateway_calls (snd (routes_chat (recording (stub_gateway ''hi there'')) hello_request_pkg
                            \<lparr>log = [], inner = ((), [])\<rparr>))
       = [[[(''role'', ''user''), (''content'', ''hello'')]]]"
  using chat_forwards_conversation [where request = hello_request and request' = hello_request_pkg
      and gate = "stub_gateway ''hi there''" and gate' = "stub_gateway ''hi there''"
      and w = "\<lparr>log = [], inner = ((), [])\<rparr>" and w' = "\<lparr>log = [], inner = ((), [])\<rparr>"
      and answer = "''hi there''" and answer' = "''hi there''" and g = "()" and g' = "()"]
  by (simp add: hello_request_def hello_request_pkg_def stub_gateway_def gateway_calls_def
        model_dump_def)

text \<open>
  C2. For an empty conversation both chat handlers raise \<open>HTTPException\<close> with status 400
  and a detail saying that the list cannot be empty, and the gateway is not called: the
  state behind the handler, and with it the list of gateway calls, is as before.
\<close>

theorem empty_conversation_rejected:
  fixes gate :: "'g gateway" and gate' :: "'h gateway"
  assumes "messages request = []" and "messages request' = []"
  shows "fst (chat (recording gate) request w)
           = Inl (HTTPException 400
                   (''The '' @ [apostrophe] @ ''messages'' @ [apostrophe] @ '' list cannot be empty.''))
       \<and> inner (snd (chat (recording gate) request w)) = inner w
       \<and> gateway_calls (snd (chat (recording gate) request w)) = gateway_calls w
       \<and> fst (routes_chat (recording gate') request' w')
           = Inl (HTTPException 400
                   (''La lista '' @ [apostrophe] @ ''messages'' @ [apostrophe]
                      @ '' no puede estar vac'' @ [i_acute] @ ''a''))
       \<and> inner (snd (routes_chat (recording gate') request' w')) = inner w'
       \<and> gateway_calls (snd (routes_chat (recording gate') request' w')) = gateway_calls w'"
  using assms
  by (simp add: chat_def routes_chat_def gateway_calls_def emit_def emit_at_def)

theorem empty_conversation_rejected_witness:
  "messages \<lparr>messages = []\<rparr> = []
   \<and> fst (chat (recording (stub_gateway ''hi there'')) \<lparr>messages = []\<rparr>
            \<lparr>log = [], inner = ((), [])\<rparr>)
       = Inl (HTTPException 400
               (''The '' @ [apostrophe] @ ''messages'' @ [apostrophe] @ '' list cannot be empty.''))
   \<and> gateway_calls (snd (chat (recording (stub_gateway ''hi there'')) \<lparr>messages = []\<rparr>
                            \<lparr>log = [], inner = ((), [])\<rparr>)) = []
   \<and> gateway_calls (snd (routes_chat (recording (stub_gateway ''hi there''))
                            \<lparr>messages = [], business_id = None\<rparr>
                            \<lparr>log = [], inner = ((), [])\<rparr>)) = []"
  using empty_conversation_rejected [where request = "\<lparr>messages = []\<rparr>"
      and request' = "\<lparr>messages = [], business_id = None\<rparr>"
      and gate = "stub_gateway ''hi there''" and gate' = "stub_gateway ''hi there''"
      and w = "\<lparr>log = [], inner = ((), [])\<rparr>" and w' = "\<lparr>log = [], inner = ((), [])\<rparr>"]
  by (simp add: gateway_calls_def)

section \<open>Gateway failures at the HTTP boundary\<close>



section \<open>Cold-email prompt assembly\<close>

lemma sublist_here: "sublist xs (xs @ ss)"
  by (rule sublist_append_rightI)

lemma sublist_skip: "sublist xs ys \<Longrightarrow> sublist xs (ps @ ys)"
  by (metis sublist_def append.assoc)

lemma user_prompt_fields:
  "sublist (freelancer_profile request) (user_prompt request)"
  "sublist (client_business request) (user_prompt request)"
  "sublist (client_pain_point request) (user_prompt request)"
  "sublist (offer request) (user_prompt request)"
  "sublist (goal request) (user_prompt request)"
  unfolding user_prompt_def
  by (rule sublist_here | rule sublist_skip)+

lemma user_prompt_split:
  "user_prompt request =
     (''Perfil del freelancer: '' @ freelancer_profile request @ ''\<newline>''
      @ ''Negocio del cliente: '' @ client_business request @ ''\<newline>''
      @ ''Punto de dolor del cliente: '' @ client_pain_point request @ ''\<newline>''
      @ ''Oferta: '' @ offer request @ ''\<newline>''
      @ ''Objetivo del email: '' @ goal request @ ''\<newline>''
      @ ''Tono: '' @ tone_value (tone request) @ ''\<newline>'')
     @ ''Idioma: '' @ language_value (language request)
     @ (''\<newline>\<newline>''
        @ ''Escribe un cold email que el freelancer pueda enviar a este cliente. ''
        @ english_directive @ '' '' @ spanish_directive @ '' ''
        @ ''El email debe estar listo para copiar y pegar.'')"
  by (simp add: user_prompt_def english_directive_def spanish_directive_def)

lemma user_prompt_english: "sublist english_directive (user_prompt request)"
  unfolding user_prompt_split [of request]
  by (rule sublist_here | rule sublist_skip)+

lemma user_prompt_spanish: "sublist spanish_directive (user_prompt request)"
  unfolding user_prompt_split [of request]
  by (rule sublist_here | rule sublist_skip)+

lemma cold_email_gateway_calls:
  fixes gate :: "'g gateway"
  shows "gateway_calls (snd (generate_cold_email (recording gate) request w))
     = gateway_calls w @ [[[(''role'', ''system''), (''content'', system_prompt)],
                           [(''role'', ''user''), (''content'', user_prompt request)]]]"
  by (auto simp: generate_cold_email_def recording_def gateway_calls_def emit_def emit_at_def
                 Let_def
           split: prod.splits sum.splits exn.splits)

text \<open>
  C5. The messages that \<open>generate_cold_email\<close> hands to the gateway are the system
  message followed by the user message, and they depend on the request alone: whatever
  the gateway and the state, one call adds exactly this pair to the gateway's calls, and
  a second call with the same request, made in the state the first one left, adds the
  same pair again. The user message contains the five free-text fields as they are; for
  language \<open>es\<close> it contains the sentence that asks for Spanish, for \<open>en\<close> the one that
  asks for English.
\<close>

theorem cold_email_assembly_deterministic:
  fixes gate :: "'g gateway"
  shows "gateway_calls (snd (generate_cold_email (recording gate) request w))
           = gateway_calls w
             @ [[[(''role'', ''system''), (''content'', system_prompt)],
                 [(''role'', ''user''), (''content'', user_prompt request)]]]
       \<and> gateway_calls (snd (generate_cold_email (recording gate) request
                                (snd (generate_cold_email (recording gate) request w))))
           = gateway_calls w
             @ [[[(''role'', ''system''), (''content'', system_prompt)],
                 [(''role'', ''user''), (''content'', user_prompt request)]],
                [[(''role'', ''system''), (''content'', system_prompt)],
                 [(''role'', ''user''), (''content'', user_prompt request)]]]
       \<and> sublist (freelancer_profile request) (user_prompt request)
       \<and> sublist (client_business request) (user_prompt request)
       \<and> sublist (client_pain_point request) (user_prompt request)
       \<and> sublist (offer request) (user_prompt request)
       \<and> sublist (goal request) (user_prompt request)
       \<and> (language request = Es \<longrightarrow> sublist spanish_directive (user_prompt request))
       \<and> (language request = En \<longrightarrow> sublist english_directive (user_prompt request))"
  by (simp add: cold_email_gateway_calls user_prompt_fields user_prompt_english
        user_prompt_spanish)

theorem cold_email_assembly_deterministic_witness:
  "language sample_cold_email = Es
   \<and> language (sample_cold_email\<lparr>language := En\<rparr>) = En
   \<and> gateway_calls (snd (generate_cold_email (recording (stub_gateway ''Hola...''))
                            sample_cold_email \<lparr>log = [], inner = ((), [])\<rparr>))
       = [[[(''role'', ''system''), (''content'', system_prompt)],
           [(''role'', ''user''), (''content'', user_prompt sample_cold_email)]]]
   \<and> fst (generate_cold_email (recording (stub_gateway ''Hola...'')) sample_cold_email
            \<lparr>log = [], inner = ((), [])\<rparr>)
       = Inr \<lparr>email = ''Hola...''\<rparr>
   \<and> sublist ''Web developer'' (user_prompt sample_cold_email)
   \<and> sublist ''Bakery'' (user_prompt sample_cold_email)
   \<and> sublist ''No online orders'' (user_prompt sample_cold_email)
   \<and> sublist ''An online shop'' (user_prompt sample_cold_email)
   \<and> sublist ''Book a call'' (user_prompt sample_cold_email)
   \<and> sublist spanish_directive (user_prompt sample_cold_email)
   \<and> sublist english_directive (user_prompt (sample_cold_email\<lparr>language := En\<rparr>))"
  using cold_email_assembly_deterministic [where request = sample_cold_email
      and gate = "stub_gateway ''Hola...''" and w = "\<lparr>log = [], inner = ((), [])\<rparr>"]
    cold_email_assembly_deterministic [where request = "sample_cold_email\<lparr>language := En\<rparr>"
      and gate = "stub_gateway ''Hola...''" and w = "\<lparr>log = [], inner = ((), [])\<rparr>"]
  by (simp add: sample_cold_email_def gateway_calls_def generate_cold_email_def recording_def
        stub_gateway_def emit_def emit_at_def)

text \<open>
  C9. Whatever the language, the user prompt contains both sentences, the one for English
  and the one for Spanish; they are part of a fixed closing text. The language enters the
  prompt at one place only, after \<open>Idioma:\<close>: the text before it and the closing text
  after it do not depend on the language.
\<close>

theorem both_directives_in_every_prompt:
  "sublist english_directive (user_prompt request)
   \<and> sublist spanish_directive (user_prompt request)
   \<and> user_prompt (request\<lparr>language := l\<rparr>)
       = (''Perfil del freelancer: '' @ freelancer_profile request @ ''\<newline>''
          @ ''Negocio del cliente: '' @ client_business request @ ''\<newline>''
          @ ''Punto de dolor del cliente: '' @ client_pain_point request @ ''\<newline>''
          @ ''Oferta: '' @ offer request @ ''\<newline>''
          @ ''Objetivo del email: '' @ goal request @ ''\<newline>''
          @ ''Tono: '' @ tone_value (tone request) @ ''\<newline>'')
         @ ''Idioma: '' @ language_value l
         @ (''\<newline>\<newline>''
            @ ''Escribe un cold email que el freelancer pueda enviar a este cliente. ''
            @ english_directive @ '' '' @ spanish_directive @ '' ''
            @ ''El email debe estar listo para copiar y pegar.'')"
  using user_prompt_split [of "request\<lparr>language := l\<rparr>"]
  by (simp add: user_prompt_english user_prompt_spanish)

theorem both_directives_in_every_prompt_witness:
  "sublist english_directive (user_prompt sample_cold_email)
   \<and> sublist spanish_directive (user_prompt sample_cold_email)
   \<and> sublist english_directive (user_prompt (sample_cold_email\<lparr>language := En\<rparr>))
   \<and> sublist spanish_directive (user_prompt (sample_cold_email\<lparr>language := En\<rparr>))"
  using both_directives_in_every_prompt [of sample_cold_email Es]
    both_directives_in_every_prompt [of "sample_cold_email\<lparr>language := En\<rparr>" En]
  by blast

section \<open>The gateways\<close>

text \<open>What the single-file gateway turns into \<open>RuntimeError\<close>: a provider call that
  raises \<open>OpenAIError\<close>, and a completion without a first choice or with a missing
  attribute on the way to the content.\<close>

lemma call_model_wraps_provider_failure:
  assumes "key \<noteq> []"
    and "create \<lparr>api_key = key, model = MODEL_NAME, request_messages = ms\<rparr> (inner w)
           = (Inl (OpenAIError m), p)"
  shows "fst (call_model (Some key) MODEL_NAME create ms w)
           = Inl (RuntimeError (''LLM request failed: '' @ m))"
  using assms by (simp add: call_model_def emit_def)

lemma call_model_unexpected_format:
  assumes "key \<noteq> []"
    and "create \<lparr>api_key = key, model = MODEL_NAME, request_messages = ms\<rparr> (inner w)
           = (Inr response, p)"
    and "first_choice_content response = Inl AttributeError
         \<or> first_choice_content response = Inl IndexError"
  shows "fst (call_model (Some key) MODEL_NAME create ms w)
           = Inl (RuntimeError ''Unexpected response format from LLM.'')"
  using assms by (auto simp: call_model_def emit_def)

lemma call_llm_wraps_provider_failure:
  assumes "create \<lparr>api_key = fst (get_openai_client settings w),
                    model = openai_model_name settings, request_messages = ms\<rparr> (inner w)
           = (Inl (OpenAIError m), p)"
  shows "fst (call_llm settings create ms w) = Inl (RuntimeError (''LLM request failed: '' @ m))"
  using assms
  by (auto simp: call_llm_def call_llm_except_def get_openai_client_def emit_def
           split: option.splits)

lemma call_llm_unexpected_format:
  assumes "create \<lparr>api_key = fst (get_openai_client settings w),
                    model = openai_model_name settings, request_messages = ms\<rparr> (inner w)
           = (Inr response, p)"
    and "first_choice_content response = Inl AttributeError
         \<or> first_choice_content response = Inl IndexError"
  shows "fst (call_llm settings create ms w)
           = Inl (RuntimeError ''Unexpected response format from LLM'')"
  using assms
  by (auto simp: call_llm_def call_llm_except_def get_openai_client_def emit_def
           split: option.splits)

text \<open>Every exception that leaves a gateway is a \<open>RuntimeError\<close>, the \<open>TypeError\<close>
  of a \<open>None\<close> where a list or a string is read, or an exception of another kind that
  the provider call raised itself.\<close>

lemma first_choice_content_raises:
  "first_choice_content response = Inl e
   \<Longrightarrow> e = AttributeError \<or> e = IndexError \<or> e = TypeError"
  by (induction response rule: first_choice_content.induct) auto

lemma call_model_raises:
  assumes "call_model k M create ms w = (Inl e, w')"
  shows "(\<exists>m. e = RuntimeError m) \<or> e = TypeError
         \<or> (\<exists>rq p p'. create rq p = (Inl e, p'))"
  using assms
  by (auto simp: call_model_def Let_def
           split: option.splits if_splits prod.splits sum.splits exn.splits
           dest: first_choice_content_raises)

lemma call_llm_raises:
  assumes "call_llm settings create ms w = (Inl e, w')"
  shows "(\<exists>m. e = RuntimeError m) \<or> e = TypeError
         \<or> (\<exists>rq p p'. create rq p = (Inl e, p'))"
  using assms
  by (auto simp: call_llm_def call_llm_except_def Let_def
           split: option.splits if_splits prod.splits sum.splits exn.splits
           dest: first_choice_content_raises)

text \<open>
  C3 at the input where the code leaves it. The provider answers with a completion whose
  first choice has a message with \<open>content\<close> equal to \<open>None\<close>. Both gateways read the
  content and take its length for the log inside the \<open>try\<close> block; the \<open>TypeError\<close> of
  \<open>len(None)\<close> is not among the exceptions they catch, so it leaves the gateway as it
  is, not as \<open>RuntimeError\<close>.
\<close>

theorem none_content_escapes_as_TypeError:
  "fst (call_model (Some ''sk-test'') ''gpt-4o-mini'' null_content_provider
          [[(''role'', ''user''), (''content'', ''hello'')]] \<lparr>log = [], inner = ()\<rparr>)
     = Inl TypeError
   \<and> fst (call_llm test_settings null_content_provider
            [[(''role'', ''user''), (''content'', ''hello'')]]
            \<lparr>log = [], inner = (), client = None\<rparr>)
     = Inl TypeError"
  by (simp add: call_model_def call_llm_def call_llm_except_def get_openai_client_def
        null_content_provider_def test_settings_def emit_def)

text \<open>
  C7. When \<open>_client.api_key\<close> is \<open>None\<close> or empty, \<open>call_model\<close> raises
  \<open>RuntimeError\<close> with the message that the key is not configured and changes nothing:
  with the provider's calls recorded, the list of requests sent is as it was.
\<close>

theorem missing_key_fails_fast:
  fixes create :: "'p provider"
  assumes "client_api_key = None \<or> client_api_key = Some []"
  shows "call_model client_api_key MODEL_NAME (recording create) messages' w
           = (Inl (RuntimeError ''OpenAI API key is not configured.''), w)
       \<and> provider_requests (snd (call_model client_api_key MODEL_NAME (recording create) messages' w))
           = provider_requests w"
  using assms by (auto simp: call_model_def)

theorem missing_key_fails_fast_witness:
  "call_model None ''gpt-4o-mini'' (recording quota_provider) [system_message]
       \<lparr>log = [], inner = ((), [])\<rparr>
     = (Inl (RuntimeError ''OpenAI API key is not configured.''), \<lparr>log = [], inner = ((), [])\<rparr>)
   \<and> call_model (Some []) ''gpt-4o-mini'' (recording quota_provider) [system_message]
       \<lparr>log = [], inner = ((), [])\<rparr>
     = (Inl (RuntimeError ''OpenAI API key is not configured.''), \<lparr>log = [], inner = ((), [])\<rparr>)
   \<and> provider_requests (snd (call_model None ''gpt-4o-mini'' (recording quota_provider)
                               [system_message] \<lparr>log = [], inner = ((), [])\<rparr>)) = []"
  using missing_key_fails_fast [where client_api_key = None and MODEL_NAME = "''gpt-4o-mini''"
      and create = quota_provider and messages' = "[system_message]"
      and w = "\<lparr>log = [], inner = ((), [])\<rparr>"]
    missing_key_fails_fast [where client_api_key = "Some []" and MODEL_NAME = "''gpt-4o-mini''"
      and create = quota_provider and messages' = "[system_message]"
      and w = "\<lparr>log = [], inner = ((), [])\<rparr>"]
  by (simp add: provider_requests_def)

section \<open>The command-line loop\<close>

text \<open>Whatever the input, the first thing the loop writes is the prompt.\<close>

lemma main_loop_prompts_first:
  fixes gate :: "'g gateway"
  shows "\<exists>rest. stdout (snd (snd (main_loop gate stdin ms t))) = stdout t @ ''You: '' # rest"
proof (induction stdin arbitrary: ms t)
  case Nil
  show ?case by (simp add: put_def)
next
  case (Cons line stdin)
  let ?t1 = "put ''You: '' t"
  let ?ms1 = "ms @ [[(''role'', ''user''), (''content'', strip line)]]"
  have grow: "\<exists>rest. stdout (snd (snd (main_loop gate stdin ms2 t2))) = stdout t @ ''You: '' # rest"
    if "\<exists>more. stdout t2 = stdout t @ ''You: '' # more" for ms2 t2
  proof -
    from that obtain more where m: "stdout t2 = stdout t @ ''You: '' # more" by blast
    from Cons.IH [of ms2 t2] obtain rest
      where "stdout (snd (snd (main_loop gate stdin ms2 t2))) = stdout t2 @ ''You: '' # rest"
      by blast
    with m show ?thesis by simp
  qed
  show ?case
  proof (cases "lower (strip line) \<in> {''exit'', ''quit''}")
    case True
    then show ?thesis by (auto simp: Let_def put_def py_print_def)
  next
    case no_exit: False
    show ?thesis
    proof (cases "strip line = []")
      case True
      with no_exit show ?thesis using grow [of ?t1 ms] by (simp add: Let_def put_def)
    next
      case nonempty: False
      obtain res g where call: "gate ?ms1 (gw ?t1) = (res, g)"
        by (cases "gate ?ms1 (gw ?t1)")
      show ?thesis
      proof (cases res)
        case (Inr assistant_reply)
        with no_exit nonempty call show ?thesis
          using grow [of "py_print (''Assistant: '' @ assistant_reply @ ''\<newline>'') (?t1\<lparr>gw := g\<rparr>)"
                         "?ms1 @ [[(''role'', ''assistant''), (''content'', assistant_reply)]]"]
          by (simp add: Let_def put_def py_print_def)
      next
        case (Inl e)
        show ?thesis
        proof (cases "\<exists>exc. e = RuntimeError exc")
          case True
          then obtain exc where e: "e = RuntimeError exc" by blast
          with no_exit nonempty call Inl show ?thesis
            using grow [of "py_print (''[error] '' @ exc) (?t1\<lparr>gw := g\<rparr>)" ms]
            by (simp add: Let_def put_def py_print_def)
        next
          case False
          with no_exit nonempty call Inl show ?thesis
            by (cases e) (auto simp: Let_def put_def)
        qed
      qed
    qed
  qed
qed

text \<open>
  C6. A turn on which the gateway raises \<open>RuntimeError\<close> with message \<open>m\<close>: the loop
  prints \<open>[error] m\<close>, and goes on with the rest of the input and with the history it
  had before the turn, so the user message just appended is gone and every earlier
  message is in its place; the next thing it writes is the prompt for a new line.
\<close>

theorem gateway_failure_drops_only_new_turn:
  fixes gate :: "'g gateway"
  assumes "strip line \<noteq> []" and "lower (strip line) \<notin> {''exit'', ''quit''}"
    and "gate (messages' @ [[(''role'', ''user''), (''content'', strip line)]]) (gw t)
           = (Inl (RuntimeError m), g)"
  shows "main_loop gate (line # stdin) messages' t
           = main_loop gate stdin messages'
               \<lparr>stdout = stdout t @ [''You: '', ''[error] '' @ m @ ''\<newline>''], gw = g\<rparr>
       \<and> (\<exists>rest. stdout (snd (snd (main_loop gate (line # stdin) messages' t)))
              = stdout t @ [''You: '', ''[error] '' @ m @ ''\<newline>'', ''You: ''] @ rest)"
proof -
  have step: "main_loop gate (line # stdin) messages' t
           = main_loop gate stdin messages'
               \<lparr>stdout = stdout t @ [''You: '', ''[error] '' @ m @ ''\<newline>''], gw = g\<rparr>"
    using assms by (cases t) (simp add: Let_def put_def py_print_def)
  obtain rest where "stdout (snd (snd (main_loop gate stdin messages'
               \<lparr>stdout = stdout t @ [''You: '', ''[error] '' @ m @ ''\<newline>''], gw = g\<rparr>)))
       = (stdout t @ [''You: '', ''[error] '' @ m @ ''\<newline>'']) @ ''You: '' # rest"
    using main_loop_prompts_first [of gate stdin messages'
        "\<lparr>stdout = stdout t @ [''You: '', ''[error] '' @ m @ ''\<newline>''], gw = g\<rparr>"]
    by auto
  then show ?thesis using step by simp
qed

theorem gateway_failure_drops_only_new_turn_witness:
  "strip ''hola'' \<noteq> [] \<and> lower (strip ''hola'') \<notin> {''exit'', ''quit''}
   \<and> flaky_gateway ([system_message] @ [[(''role'', ''user''), (''content'', strip ''hola'')]]) 0
       = (Inl (RuntimeError ''LLM request failed: timeout''), Suc 0)
   \<and> main_loop flaky_gateway [''hola'', ''exit''] [system_message] \<lparr>stdout = [], gw = 0\<rparr>
       = (None, [system_message],
          \<lparr>stdout = [''You: '', ''[error] LLM request failed: timeout\<newline>'', ''You: '',
                     ''Goodbye!\<newline>''],
           gw = Suc 0\<rparr>)"
  using gateway_failure_drops_only_new_turn [where line = "''hola''" and gate = flaky_gateway
      and messages' = "[system_message]" and t = "\<lparr>stdout = [], gw = 0\<rparr>"
      and m = "''LLM request failed: timeout''" and g = "Suc 0" and stdin = "[''exit'']"]
  by (simp add: flaky_gateway_def strip_def lower_def lower_char_def isspace_def Let_def
        put_def py_print_def)

text \<open>
  C8. A line that is \<open>exit\<close> or \<open>quit\<close> once stripped and lowered ends the loop: it
  prints the goodbye and returns with the history and the state behind the gateway as
  they were, so the gateway was not called. A line that is empty once stripped is
  skipped: the loop goes on with the rest of the input, the same history and the same
  state behind the gateway.
\<close>

theorem exit_quit_and_empty_input:
  fixes gate :: "'g gateway"
  shows "(lower (strip line) \<in> {''exit'', ''quit''}
           \<longrightarrow> main_loop gate (line # stdin) messages' t
               = (None, messages',
                  \<lparr>stdout = stdout t @ [''You: '', ''Goodbye!\<newline>''], gw = gw t\<rparr>))
       \<and> (strip line = []
           \<longrightarrow> main_loop gate (line # stdin) messages' t
               = main_loop gate stdin messages' \<lparr>stdout = stdout t @ [''You: ''], gw = gw t\<rparr>)"
  by (cases t) (auto simp: Let_def put_def py_print_def lower_def)

theorem exit_quit_and_empty_input_witness:
  "lower (strip ''exit'') \<in> {''exit'', ''quit''} \<and> lower (strip ''quit'') \<in> {''exit'', ''quit''}
   \<and> strip [] = []
   \<and> main_loop (recording (stub_gateway ''hi'')) [''exit'', ''hola''] [system_message]
         \<lparr>stdout = [], gw = ((), [])\<rparr>
       = (None, [system_message], \<lparr>stdout = [''You: '', ''Goodbye!\<newline>''], gw = ((), [])\<rparr>)
   \<and> main_loop (recording (stub_gateway ''hi'')) [''quit'', ''hola''] [system_message]
         \<lparr>stdout = [], gw = ((), [])\<rparr>
       = (None, [system_message], \<lparr>stdout = [''You: '', ''Goodbye!\<newline>''], gw = ((), [])\<rparr>)
   \<and> main_loop (recording (stub_gateway ''hi'')) [[], ''quit''] [system_message]
         \<lparr>stdout = [], gw = ((), [])\<rparr>
       = (None, [system_message],
          \<lparr>stdout = [''You: '', ''You: '', ''Goodbye!\<newline>''], gw = ((), [])\<rparr>)"
  using exit_quit_and_empty_input [where line = "''exit''" and stdin = "[''hola'']"
      and gate = "recording (stub_gateway ''hi'')" and messages' = "[system_message]"
      and t = "\<lparr>stdout = [], gw = ((), [])\<rparr>"]
    exit_quit_and_empty_input [where line = "[]" and stdin = "[''quit'']"
      and gate = "recording (stub_gateway ''hi'')" and messages' = "[system_message]"
      and t = "\<lparr>stdout = [], gw = ((), [])\<rparr>"]
    exit_quit_and_empty_input [where line = "''quit''" and stdin = "[''hola'']"
      and gate = "recording (stub_gateway ''hi'')" and messages' = "[system_message]"
      and t = "\<lparr>stdout = [], gw = ((), [])\<rparr>"]
  by (simp add: strip_def lower_def lower_char_def isspace_def Let_def put_def py_print_def)

text \<open>The invariant of the loop: a history that starts with the system message stays so
  over any input, and every call the gateway receives starts with it too. The induction
  follows the loop; a turn appends to the history and, on a failure, removes only what
  it appended.\<close>

lemma main_loop_invariant:
  fixes gate :: "'g gateway"
  assumes "system_first ms" and "list_all system_first (snd (gw t))"
    and "main_loop (recording gate) stdin ms t = (r, ms', t')"
  shows "system_first ms' \<and> list_all system_first (snd (gw t'))"
  using assms
proof (induction stdin arbitrary: ms t)
  case Nil
  then show ?case by (auto simp: put_def)
next
  case (Cons line stdin)
  let ?t1 = "put ''You: '' t"
  let ?ms1 = "ms @ [[(''role'', ''user''), (''content'', strip line)]]"
  have ms1: "system_first ?ms1"
    using Cons.prems(1) by (simp add: system_first_def)
  show ?case
  proof (cases "lower (strip line) \<in> {''exit'', ''quit''}")
    case True
    with Cons.prems show ?thesis by (auto simp: Let_def put_def py_print_def)
  next
    case no_exit: False
    show ?thesis
    proof (cases "strip line = []")
      case True
      with no_exit Cons.prems(3) have "main_loop (recording gate) stdin ms ?t1 = (r, ms', t')"
        by (simp add: Let_def)
      moreover have "list_all system_first (snd (gw ?t1))"
        using Cons.prems(2) by (simp add: put_def)
      ultimately show ?thesis using Cons.IH Cons.prems(1) by blast
    next
      case nonempty: False
      obtain res g where call: "gate ?ms1 (fst (gw ?t1)) = (res, g)"
        by (cases "gate ?ms1 (fst (gw ?t1))")
      then have rec: "recording gate ?ms1 (gw ?t1) = (res, g, snd (gw ?t1) @ [?ms1])"
        by (simp add: recording_def)
      have tr: "list_all system_first (snd (gw ?t1) @ [?ms1])"
        using Cons.prems(2) ms1 by (simp add: put_def)
      show ?thesis
      proof (cases res)
        case (Inr assistant_reply)
        let ?ms2 = "?ms1 @ [[(''role'', ''assistant''), (''content'', assistant_reply)]]"
        let ?t2 = "py_print (''Assistant: '' @ assistant_reply @ ''\<newline>'')
                     (?t1\<lparr>gw := (g, snd (gw ?t1) @ [?ms1])\<rparr>)"
        from no_exit nonempty rec Inr Cons.prems(3)
        have "main_loop (recording gate) stdin ?ms2 ?t2 = (r, ms', t')"
          by (simp add: Let_def)
        moreover have "system_first ?ms2"
          using Cons.prems(1) by (simp add: system_first_def)
        moreover have "list_all system_first (snd (gw ?t2))"
          using tr by (simp add: py_print_def put_def)
        ultimately show ?thesis using Cons.IH by blast
      next
        case (Inl e)
        show ?thesis
        proof (cases "\<exists>exc. e = RuntimeError exc")
          case True
          then obtain exc where e: "e = RuntimeError exc" by blast
          let ?t2 = "py_print (''[error] '' @ exc) (?t1\<lparr>gw := (g, snd (gw ?t1) @ [?ms1])\<rparr>)"
          from no_exit nonempty rec Inl e Cons.prems(3)
          have "main_loop (recording gate) stdin ms ?t2 = (r, ms', t')"
            by (simp add: Let_def)
          moreover have "list_all system_first (snd (gw ?t2))"
            using tr by (simp add: py_print_def put_def)
          ultimately show ?thesis using Cons.IH Cons.prems(1) by blast
        next
          case False
          with no_exit nonempty rec Inl Cons.prems(3)
          have "ms' = ?ms1 \<and> t' = ?t1\<lparr>gw := (g, snd (gw ?t1) @ [?ms1])\<rparr>"
            by (cases e) (auto simp: Let_def)
          then show ?thesis using ms1 tr by simp
        qed
      qed
    qed
  qed
qed

text \<open>
  C10. Run \<open>main\<close> on any lines of input, with any gateway, its calls recorded from the
  start. When the loop stops (by \<open>exit\<close>, by an exception, or because the input has no
  further line, which is the state of the loop at that point of a longer session), the
  history is not empty and its first element is the initial system message, whose role is
  \<open>system\<close>; and every list the gateway received was not empty and started with that
  message. So no turn, a failed one included, removes the system message.
\<close>

theorem cli_history_starts_with_system_message:
  fixes gate :: "'g gateway"
  shows "system_first (fst (snd (main (recording gate) stdin \<lparr>stdout = out, gw = (g, [])\<rparr>)))
       \<and> list_all system_first
           (snd (gw (snd (snd (main (recording gate) stdin \<lparr>stdout = out, gw = (g, [])\<rparr>)))))
       \<and> map_of system_message ''role'' = Some ''system''"
proof -
  obtain r ms' t' where run: "main (recording gate) stdin \<lparr>stdout = out, gw = (g, [])\<rparr> = (r, ms', t')"
    by (cases "main (recording gate) stdin \<lparr>stdout = out, gw = (g, [])\<rparr>")
  have "system_first [system_message]"
    by (simp add: system_first_def)
  moreover have "list_all system_first
      (snd (gw (py_print (''CLI LLM Chatbot. Type '' @ [apostrophe] @ ''exit'' @ [apostrophe]
                            @ '' to quit.\<newline>'') \<lparr>stdout = out, gw = (g, [])\<rparr>)))"
    by (simp add: py_print_def put_def)
  ultimately have "system_first ms' \<and> list_all system_first (snd (gw t'))"
    using run main_loop_invariant unfolding main_def by blast
  moreover have "map_of system_message ''role'' = Some ''system''"
    by (simp add: system_message_def)
  ultimately show ?thesis using run by simp
qed

theorem cli_history_starts_with_system_message_witness:
  "main (recording flaky_gateway) [''hola'', ''hola'', ''quit''] \<lparr>stdout = [], gw = (0, [])\<rparr>
     = (None,
        [system_message, [(''role'', ''user''), (''content'', ''hola'')],
         [(''role'', ''assistant''), (''content'', ''hola'')]],
        \<lparr>stdout = [''CLI LLM Chatbot. Type '' @ [apostrophe] @ ''exit'' @ [apostrophe]
                      @ '' to quit.\<newline>\<newline>'',
                    ''You: '', ''[error] LLM request failed: timeout\<newline>'',
                    ''You: '', ''Assistant: hola\<newline>\<newline>'',
                    ''You: '', ''Goodbye!\<newline>''],
         gw = (Suc (Suc 0),
               [[system_message, [(''role'', ''user''), (''content'', ''hola'')]],
                [system_message, [(''role'', ''user''), (''content'', ''hola'')]]])\<rparr>)
   \<and> system_first (fst (snd (main (recording flaky_gateway) [''hola'', ''hola'', ''quit'']
                               \<lparr>stdout = [], gw = (0, [])\<rparr>)))
   \<and> list_all system_first
        (snd (gw (snd (snd (main (recording flaky_gateway) [''hola'', ''hola'', ''quit'']
                              \<lparr>stdout = [], gw = (0, [])\<rparr>)))))"
  using cli_history_starts_with_system_message [where gate = flaky_gateway
      and stdin = "[''hola'', ''hola'', ''quit'']" and out = "[]" and g = 0]
  by (simp add: main_def flaky_gateway_def recording_def strip_def lower_def lower_char_def
        isspace_def Let_def put_def py_print_def)

end
